theory Spec2Isabelle
  imports Complex_Main
begin

section \<open>The spectral widget of \<^verbatim>\<open>hypercoast/ui.py\<close>\<close>

text \<open>
  \<^verbatim>\<open>SpectralWidget\<close> is a composite control docked on a host map. Its callbacks mutate
  attributes of the host map and of the widget itself. The embedding threads one record,
  \<open>world\<close>, through every callback: the attributes of the host map, the attributes of
  \<^verbatim>\<open>self\<close>, and the objects both refer to (the output panel, the array buffers).
  A callback returns the fault it raised, if any, together with the world as it was at
  that moment: Python keeps every mutation made before a raise.
\<close>

subsection \<open>Values\<close>

datatype error =
    TypeError
  | IndexError
  | AttributeError string
  | KeyError string
  | ControlException

text \<open>
  An element of a reflectance array is an IEEE double: a finite value, an infinity or NaN.
  Only the comparison with zero of line 154 is needed; it is false at NaN.
\<close>

datatype fval = Fin rat | PInf | NInf | NaN

fun lt0 :: "fval \<Rightarrow> bool" where
  "lt0 (Fin r) = (r < 0)"
| "lt0 PInf = False"
| "lt0 NInf = True"
| "lt0 NaN = False"

text \<open>
  A coordinate of an event is a finite double: its exact rational value, or negative zero,
  which no rational tells from zero but \<^verbatim>\<open>.4f\<close> prints with its sign.
\<close>

datatype coord = Num rat | NegZero

text \<open>\<^verbatim>\<open>da[da < 0] = np.nan\<close> (line 154), on the contents of the array.\<close>

definition mask_negative :: "fval list \<Rightarrow> fval list" where
  "mask_negative xs = map (\<lambda>v. if lt0 v then NaN else v) xs"

text \<open>
  Array buffers live in a store. What \<^verbatim>\<open>.values\<close> hands out is either the buffer itself
  (\<open>View\<close>: a later write to the buffer shows through) or an array of its own (\<open>Owned\<close>).
\<close>

type_synonym addr = nat

datatype aref = View addr | Owned "fval list"


text \<open>
  The result of \<^verbatim>\<open>ds.sel(latitude=lat, longitude=lon, method="nearest")["reflectance"]\<close>:
  the buffer the selection reads and writes; the fault, if any, that the in-place
  assignment of line 154 raises on this selection (a selection without a dimension, or one
  whose backing array does not take the assignment); and the values of the coordinate of
  its first dimension (\<^verbatim>\<open>da.coords[da.dims[0]].values\<close>, absent when the lookup of line
  164 fails).
\<close>

record dataarray =
  buf :: addr
  assign_fault :: "error option"
  dim0_coord :: "fval list option"

text \<open>
  A dataset is an object of the host application. Its nearest-neighbour selection is taken
  as given (\<open>sel_nearest\<close>, which may fault), as is whether the array \<^verbatim>\<open>.values\<close> of a
  selection returns is the buffer that an in-place assignment to the selection writes
  (\<open>values_shared\<close>; it is for NumPy-backed data in memory). \<open>wavelengths\<close> is
  \<^verbatim>\<open>ds["wavelengths"].values\<close>, \<open>None\<close> when the variable is missing.
\<close>

record dataset =
  sel_nearest :: "coord \<Rightarrow> coord \<Rightarrow> error + dataarray"
  values_shared :: bool
  wavelengths :: "fval list option"

text \<open>An entry of \<^verbatim>\<open>cog_layer_dict\<close> is a dictionary; \<open>None\<close> when it has no key \<^verbatim>\<open>"xds"\<close>.\<close>

type_synonym layer = "dataset option"

datatype control = OutputControl | SpectralControl | FileChooserControl nat | OtherControl nat

datatype callback = HandleInteraction | OtherCallback nat

type_synonym marker = "coord list"

text \<open>
  What the output panel shows: a plot, with the x values and the y values of \<^verbatim>\<open>plt.plot\<close>,
  or the traceback of a fault raised inside its \<^verbatim>\<open>with\<close> block.
\<close>

datatype display = Plot "fval list" "fval list" | Traceback error

subsection \<open>The host map and the widget\<close>

text \<open>
  An optional attribute of the host map (one the code tests with \<^verbatim>\<open>hasattr\<close>) is an
  \<open>option\<close>: \<open>None\<close> when the attribute is absent. File choosers are numbered in the
  order \<^verbatim>\<open>save_btn_click\<close> creates them: \<^verbatim>\<open>_file_chooser\<close> holds the number of a chooser
  and \<^verbatim>\<open>_file_chooser_control\<close> the number \<open>n\<close> of the control \<open>FileChooserControl n\<close> that
  wraps chooser \<open>n\<close>. \<open>csv_exports\<close> lists the paths \<^verbatim>\<open>spectral_to_csv\<close> was called with,
  \<open>closed_choosers\<close> the choosers that were closed, \<open>arrays\<close> is the store of the buffers
  behind the datasets. Two parameters of the environment: \<open>strict_controls\<close>, whether
  \<^verbatim>\<open>remove_control\<close> of the host map rejects a control that is not on the map; and
  \<open>faults_suppressed\<close>, whether the \<^verbatim>\<open>with\<close> block of an output panel shows and swallows a
  fault raised inside it, as it does under IPython, or lets it through.
\<close>

record host_map =
  controls :: "control list"
  interaction_callbacks :: "callback list"
  default_style :: string
  cog_layer_dict :: "(string \<times> layer) list option"
  plot_markers :: "marker list option"
  plot_marker_cluster :: "marker list option"
  spectral_data :: "(string \<rightharpoonup> aref) option"
  file_chooser :: "nat option"
  file_chooser_control :: "nat option"
  csv_exports :: "string list"
  closed_choosers :: "nat list"
  arrays :: "addr \<Rightarrow> fval list"
  strict_controls :: bool
  faults_suppressed :: bool

text \<open>
  The world extends the host map (\<^verbatim>\<open>self._host_map\<close>, assigned once in \<^verbatim>\<open>__init__\<close>) with
  the attributes of the widget. A handle is \<open>True\<close> while it refers to its object and
  \<open>False\<close> once it is \<^verbatim>\<open>None\<close>. \<open>output_contents\<close> and \<open>output_closed\<close> are the state of the
  output panel object, \<open>widget_closed\<close> that of the widget, \<open>on_close_calls\<close> counts the
  invocations of the \<^verbatim>\<open>on_close\<close> callback, \<open>next_chooser\<close> numbers the file choosers.
\<close>

record world = host_map +
  on_close :: bool
  output_widget :: bool
  output_control :: bool
  spectral_widget :: bool
  spectral_control :: bool
  layers_options :: "string list"
  layers_value :: "string option"
  output_contents :: "display list"
  output_closed :: bool
  widget_closed :: bool
  on_close_calls :: nat
  next_chooser :: nat

subsection \<open>The key of a sample\<close>

text \<open>
  \<^verbatim>\<open>f"({lat:.4f} {lon:.4f})"\<close>: \<^verbatim>\<open>.4f\<close> rounds the exact value of the float to four
  decimals, halves to even, and keeps the sign, also of a negative value that rounds to
  zero and of negative zero.
\<close>

fun digits10 :: "nat \<Rightarrow> string" where
  "digits10 n = (if n < 10 then [''0123456789'' ! n]
                 else digits10 (n div 10) @ [''0123456789'' ! (n mod 10)])"

declare digits10.simps [simp del]

definition round_half_even :: "rat \<Rightarrow> int" where
  "round_half_even x =
     (let f = \<lfloor>x\<rfloor>; d = x - of_int f
      in if d < 1 / 2 then f else if 1 / 2 < d then f + 1
         else if even f then f else f + 1)"

definition fmt4f :: "coord \<Rightarrow> string" where
  "fmt4f c =
     (case c of
        NegZero \<Rightarrow> ''-0.0000''
      | Num x \<Rightarrow>
          let n = nat (round_half_even (\<bar>x\<bar> * 10000));
              frac4 = digits10 (n mod 10000)
          in (if x < 0 then ''-'' else '''') @ digits10 (n div 10000) @ ''.''
             @ replicate (4 - length frac4) (CHR ''0'') @ frac4)"

definition sample_key :: "coord \<Rightarrow> coord \<Rightarrow> string" where
  "sample_key lat lon = ''('' @ fmt4f lat @ '' '' @ fmt4f lon @ '')''"

subsection \<open>Methods of the host map\<close>

text \<open>
  Modelled from the spec: the host map class is not part of \<^verbatim>\<open>ui.py\<close>. The spec lists its
  interface: \<^verbatim>\<open>add\<close> and \<^verbatim>\<open>remove_control\<close> on the control list, \<^verbatim>\<open>on_interaction\<close> to
  subscribe and unsubscribe a callback, \<^verbatim>\<open>spectral_to_csv(path)\<close> for the export.
\<close>

definition add :: "control \<Rightarrow> world \<Rightarrow> world" where
  "add c s = s\<lparr>controls := controls s @ [c]\<rparr>"

definition remove_control :: "control \<Rightarrow> world \<Rightarrow> error option \<times> world" where
  "remove_control c s =
     (if c \<in> set (controls s) then (None, s\<lparr>controls := removeAll c (controls s)\<rparr>)
      else if strict_controls s then (Some ControlException, s)
      else (None, s))"

definition on_interaction :: "callback \<Rightarrow> bool \<Rightarrow> world \<Rightarrow> world" where
  "on_interaction cb remove s =
     (if remove then s\<lparr>interaction_callbacks := removeAll cb (interaction_callbacks s)\<rparr>
      else if cb \<in> set (interaction_callbacks s) then s
      else s\<lparr>interaction_callbacks := interaction_callbacks s @ [cb]\<rparr>)"

definition spectral_to_csv :: "string \<Rightarrow> world \<Rightarrow> world" where
  "spectral_to_csv file_path s = s\<lparr>csv_exports := csv_exports s @ [file_path]\<rparr>"

subsection \<open>The click handler\<close>

text \<open>
  An interaction event as the handler receives it: \<^verbatim>\<open>kwargs.get("coordinates")\<close> and
  \<^verbatim>\<open>kwargs.get("type")\<close>, each \<open>None\<close> when the key is missing.
\<close>

record event =
  coordinates :: "coord list option"
  etype :: "string option"

text \<open>Lines 134 to 140: the marker of the click joins the marker list and the cluster.\<close>

definition add_marker :: "marker \<Rightarrow> world \<Rightarrow> error option \<times> world" where
  "add_marker latlon s =
     (let s1 = (if plot_markers s = None then s\<lparr>plot_markers := Some []\<rparr> else s);
          markers = (case plot_markers s1 of None \<Rightarrow> [] | Some ms \<Rightarrow> ms)
      in case plot_marker_cluster s1 of
           None \<Rightarrow> (Some (AttributeError ''_plot_marker_cluster''), s1)
         | Some _ \<Rightarrow>
             (None, s1\<lparr>plot_markers := Some (markers @ [latlon]),
                       plot_marker_cluster := Some (markers @ [latlon])\<rparr>))"

text \<open>Line 142: \<^verbatim>\<open>self._host_map.cog_layer_dict[layer_name]["xds"]\<close>.\<close>

definition lookup_xds :: "string option \<Rightarrow> world \<Rightarrow> error + dataset" where
  "lookup_xds layer_name s =
     (case cog_layer_dict s of
        None \<Rightarrow> Inl (AttributeError ''cog_layer_dict'')
      | Some d \<Rightarrow>
          (case layer_name of
             None \<Rightarrow> Inl (KeyError ''None'')
           | Some name \<Rightarrow>
               (case map_of d name of
                  None \<Rightarrow> Inl (KeyError name)
                | Some None \<Rightarrow> Inl (KeyError ''xds'')
                | Some (Some ds) \<Rightarrow> Inr ds)))"

text \<open>
  Lines 147 to 167: the wavelengths are written when the mapping has none, the sample is
  stored under its key, and only then the selection is masked (which may fault) and
  plotted. The stored array is what \<^verbatim>\<open>da.values\<close> returned at line 152.
\<close>

definition record_sample :: "dataset \<Rightarrow> dataarray \<Rightarrow> coord \<Rightarrow> coord \<Rightarrow> world \<Rightarrow> error option \<times> world" where
  "record_sample ds da lat lon s =
     (case spectral_data s of
        None \<Rightarrow> (Some (AttributeError ''_spectral_data''), s)
      | Some sd \<Rightarrow>
          (if sd ''wavelengths'' = None \<and> wavelengths ds = None
           then (Some (KeyError ''wavelengths''), s)
           else
             let sd1 = (if sd ''wavelengths'' = None
                        then (case wavelengths ds of
                                None \<Rightarrow> sd
                              | Some ws \<Rightarrow> sd(''wavelengths'' \<mapsto> Owned ws))
                        else sd);
                 vals = (if values_shared ds then View (buf da)
                         else Owned (arrays s (buf da)));
                 s1 = s\<lparr>spectral_data := Some (sd1(sample_key lat lon \<mapsto> vals))\<rparr>;
                 masked = mask_negative (arrays s1 (buf da));
                 s2 = (if values_shared ds
                       then s1\<lparr>arrays := (arrays s1)(buf da := masked)\<rparr> else s1)
             in case assign_fault da of
                  Some e \<Rightarrow> (Some e, s1)
                | None \<Rightarrow>
                    (case dim0_coord da of
                       None \<Rightarrow> (Some (KeyError ''dims''), s2)
                       | Some xs \<Rightarrow>
                           (None, s2\<lparr>output_contents :=
                                        output_contents s2 @ [Plot xs masked]\<rparr>))))"

text \<open>The block under \<^verbatim>\<open>with self._output_widget:\<close>, lines 132 to 167.\<close>

definition with_block ::
  "marker \<Rightarrow> coord \<Rightarrow> coord \<Rightarrow> string option \<Rightarrow> world \<Rightarrow> error option \<times> world" where
  "with_block latlon lat lon layer_name s =
     (case add_marker latlon (s\<lparr>output_contents := []\<rparr>) of
        (Some e, s1) \<Rightarrow> (Some e, s1)
      | (None, s1) \<Rightarrow>
          (case lookup_xds layer_name s1 of
             Inl e \<Rightarrow> (Some e, s1)
           | Inr ds \<Rightarrow>
               (case sel_nearest ds lat lon of
                  Inl e \<Rightarrow> (Some e, s1)
                | Inr da \<Rightarrow> record_sample ds da lat lon s1)))"

text \<open>
  The body of the \<^verbatim>\<open>if\<close> of line 129, lines 130 to 169. A fault inside the block either
  leaves the handler, or the output panel shows its traceback and swallows it; then line
  169 still runs.
\<close>

definition on_click :: "marker \<Rightarrow> coord \<Rightarrow> coord \<Rightarrow> world \<Rightarrow> error option \<times> world" where
  "on_click latlon lat lon s =
     (let layer_name = layers_value s
      in if \<not> output_widget s then (Some TypeError, s)
         else
           (case with_block latlon lat lon layer_name s of
              (None, s1) \<Rightarrow> (None, s1\<lparr>default_style := ''crosshair''\<rparr>)
            | (Some e, s1) \<Rightarrow>
                if faults_suppressed s1
                then (None, s1\<lparr>output_contents := output_contents s1 @ [Traceback e],
                              default_style := ''crosshair''\<rparr>)
                else (Some e, s1)))"

text \<open>
  \<^verbatim>\<open>handle_interaction\<close> (lines 124 to 169). The coordinates are indexed at 0 and 1 before
  the type of the event is looked at.
\<close>

definition handle_interaction :: "event \<Rightarrow> world \<Rightarrow> error option \<times> world" where
  "handle_interaction kwargs s =
     (case coordinates kwargs of
        None \<Rightarrow> (Some TypeError, s)
      | Some latlon \<Rightarrow>
          (case latlon of
             [] \<Rightarrow> (Some IndexError, s)
           | [lat] \<Rightarrow> (Some IndexError, s)
           | lat # lon # _ \<Rightarrow>
               if etype kwargs = Some ''click'' then on_click latlon lat lon s
               else (None, s)))"

subsection \<open>Construction\<close>

text \<open>
  \<^verbatim>\<open>__init__\<close> (lines 27 to 178). The layer names are read before anything is attached, so
  a host map without \<^verbatim>\<open>cog_layer_dict\<close> faults and stays as it was. The dropdown offers
  the layer names and starts on the first one, or on nothing when there is none.
\<close>

definition new_widget :: "host_map \<Rightarrow> string list \<Rightarrow> world" where
  "new_widget h layer_names =
     \<lparr>controls = controls h,
      interaction_callbacks = interaction_callbacks h,
      default_style = default_style h,
      cog_layer_dict = cog_layer_dict h,
      plot_markers = plot_markers h,
      plot_marker_cluster = plot_marker_cluster h,
      spectral_data = spectral_data h,
      file_chooser = file_chooser h,
      file_chooser_control = file_chooser_control h,
      csv_exports = csv_exports h,
      closed_choosers = closed_choosers h,
      arrays = arrays h,
      strict_controls = strict_controls h,
      faults_suppressed = faults_suppressed h,
      on_close = False,
      output_widget = True,
      output_control = True,
      spectral_widget = False,
      spectral_control = False,
      layers_options = layer_names,
      layers_value = (case layer_names of [] \<Rightarrow> None | n # _ \<Rightarrow> Some n),
      output_contents = [],
      output_closed = False,
      widget_closed = False,
      on_close_calls = 0,
      next_chooser = (case file_chooser h of None \<Rightarrow> 0 | Some n \<Rightarrow> Suc n)\<rparr>"

definition init :: "host_map \<Rightarrow> error + world" where
  "init h =
     (case cog_layer_dict h of
        None \<Rightarrow> Inl (AttributeError ''cog_layer_dict'')
      | Some d \<Rightarrow>
          let s1 = add OutputControl (new_widget h (map fst d));
              s2 = (if spectral_data s1 = None then s1\<lparr>spectral_data := Some Map.empty\<rparr>
                    else s1);
              s3 = on_interaction HandleInteraction False s2;
              s4 = s3\<lparr>spectral_widget := True, spectral_control := True\<rparr>
          in Inr (add SpectralControl s4))"

subsection \<open>The buttons\<close>

text \<open>\<^verbatim>\<open>reset_btn_click\<close> (lines 52 to 60).\<close>

definition reset_btn_click :: "world \<Rightarrow> error option \<times> world" where
  "reset_btn_click s =
     (let s1 = (if plot_marker_cluster s \<noteq> None
                then s\<lparr>plot_marker_cluster := Some [], plot_markers := Some []\<rparr> else s);
          s2 = (if spectral_data s1 \<noteq> None then s1\<lparr>spectral_data := Some Map.empty\<rparr>
                else s1)
      in if output_widget s2 then (None, s2\<lparr>output_contents := []\<rparr>)
         else (Some (AttributeError ''clear_output''), s2))"

text \<open>
  \<^verbatim>\<open>save_btn_click\<close> (lines 82 to 101). The early return tests whether the attribute
  exists, not whether the mapping holds a sample.
\<close>

definition save_btn_click :: "world \<Rightarrow> error option \<times> world" where
  "save_btn_click s =
     (if spectral_data s = None then (None, s)
      else if \<not> output_widget s then (Some (AttributeError ''clear_output''), s)
      else
        let n = next_chooser s;
            s1 = s\<lparr>output_contents := [], next_chooser := Suc n\<rparr>;
            s2 = add (FileChooserControl n) s1
        in (None, s2\<lparr>file_chooser := Some n, file_chooser_control := Some n\<rparr>))"

text \<open>
  The chooser that calls back: its number and \<^verbatim>\<open>chooser.selected\<close>, \<open>None\<close> while no path
  is selected. An empty path is as false as \<^verbatim>\<open>None\<close>.
\<close>

record chooser =
  chooser_id :: nat
  selected :: "string option"

text \<open>
  \<^verbatim>\<open>chooser_callback\<close> (lines 71 to 80). The control it removes and the chooser it closes
  are the ones the host map holds, whichever chooser called.
\<close>

definition chooser_callback :: "chooser \<Rightarrow> world \<Rightarrow> error option \<times> world" where
  "chooser_callback ch s =
     (case selected ch of
        None \<Rightarrow> (None, s)
      | Some file_path \<Rightarrow>
          if file_path = [] then (None, s)
          else
            let s1 = spectral_to_csv file_path s
            in case file_chooser_control s1 of
                 None \<Rightarrow> (None, s1)
               | Some c \<Rightarrow>
                   if FileChooserControl c \<in> set (controls s1)
                   then (case remove_control (FileChooserControl c) s1 of
                           (Some e, s2) \<Rightarrow> (Some e, s2)
                         | (None, s2) \<Rightarrow>
                             (case file_chooser s2 of
                                None \<Rightarrow> (Some (AttributeError ''_file_chooser''), s2)
                              | Some n \<Rightarrow>
                                  (None, s2\<lparr>closed_choosers := closed_choosers s2 @ [n]\<rparr>)))
                   else (None, s1))"

subsection \<open>Closing\<close>

text \<open>
  \<^verbatim>\<open>cleanup\<close> (lines 180 to 212), which the close button calls (lines 105 to 108).
  \<^verbatim>\<open>self._host_map\<close> is a map object and never reassigned, so the test of line 182
  succeeds. \<^verbatim>\<open>_output_control\<close> is never set to \<^verbatim>\<open>None\<close>; \<^verbatim>\<open>_spectral_control\<close> is.
\<close>

definition release_output :: "world \<Rightarrow> error option \<times> world" where
  "release_output s =
     (if output_control s
      then (case remove_control OutputControl s of
              (Some e, s1) \<Rightarrow> (Some e, s1)
            | (None, s1) \<Rightarrow>
                (None, if output_widget s1
                       then s1\<lparr>output_closed := True, output_widget := False\<rparr> else s1))
      else (None, s))"

definition release_spectral :: "world \<Rightarrow> error option \<times> world" where
  "release_spectral s =
     (if spectral_control s
      then (case remove_control SpectralControl s of
              (Some e, s1) \<Rightarrow> (Some e, s1)
            | (None, s1) \<Rightarrow>
                let s2 = s1\<lparr>spectral_control := False\<rparr>
                in (None, if spectral_widget s2
                          then s2\<lparr>widget_closed := True, spectral_widget := False\<rparr> else s2))
      else (None, s))"

definition clear_shared :: "world \<Rightarrow> world" where
  "clear_shared s =
     (let s1 = (if plot_marker_cluster s \<noteq> None
                then s\<lparr>plot_marker_cluster := Some [], plot_markers := Some []\<rparr> else s);
          s2 = (if spectral_data s1 \<noteq> None then s1\<lparr>spectral_data := Some Map.empty\<rparr>
                else s1)
      in if output_widget s2 then s2\<lparr>output_contents := []\<rparr> else s2)"

definition cleanup :: "world \<Rightarrow> error option \<times> world" where
  "cleanup s =
     (let s1 = on_interaction HandleInteraction True (s\<lparr>default_style := ''default''\<rparr>)
      in case release_output s1 of
           (Some e, s2) \<Rightarrow> (Some e, s2)
         | (None, s2) \<Rightarrow>
             (case release_spectral s2 of
                (Some e, s3) \<Rightarrow> (Some e, s3)
              | (None, s3) \<Rightarrow>
                  let s4 = clear_shared s3
                  in (None, if on_close s4
                            then s4\<lparr>on_close_calls := Suc (on_close_calls s4)\<rparr> else s4)))"

subsection \<open>Events reaching the widget\<close>

text \<open>
  Modelled from the spec: the host map delivers an interaction event to the callbacks that
  are subscribed; the handler of the widget runs when it is among them.
\<close>

definition interaction :: "event \<Rightarrow> world \<Rightarrow> error option \<times> world" where
  "interaction kwargs s =
     (if HandleInteraction \<in> set (interaction_callbacks s) then handle_interaction kwargs s
      else (None, s))"

text \<open>What can happen to a widget once it is built, and a sequence of such actions.\<close>

datatype action =
    Interaction event
  | Reset
  | Save
  | Chosen chooser
  | Close

fun step :: "action \<Rightarrow> world \<Rightarrow> error option \<times> world" where
  "step (Interaction kwargs) s = interaction kwargs s"
| "step Reset s = reset_btn_click s"
| "step Save s = save_btn_click s"
| "step (Chosen ch) s = chooser_callback ch s"
| "step Close s = cleanup s"

fun run :: "action list \<Rightarrow> world \<Rightarrow> world" where
  "run [] s = s"
| "run (a # as) s = run as (snd (step a s))"

text \<open>
  The two states of the widget. Active: the handler is subscribed, both overlay controls are
  on the map and the widget holds their handles. Closed: the handler is unsubscribed and
  neither control is on the map.
\<close>

definition is_active :: "world \<Rightarrow> bool" where
  "is_active s \<longleftrightarrow>
     HandleInteraction \<in> set (interaction_callbacks s)
     \<and> OutputControl \<in> set (controls s) \<and> SpectralControl \<in> set (controls s)
     \<and> output_control s \<and> spectral_control s"

definition is_closed :: "world \<Rightarrow> bool" where
  "is_closed s \<longleftrightarrow>
     HandleInteraction \<notin> set (interaction_callbacks s)
     \<and> OutputControl \<notin> set (controls s) \<and> SpectralControl \<notin> set (controls s)"

subsection \<open>Reading the spectral sample mapping\<close>




subsection \<open>A concrete host map\<close>

text \<open>
  One layer over NumPy-backed data whose selected spectrum holds a negative value, a marker
  cluster, no spectral data yet; and the widget built on it.
\<close>

definition example_ds :: dataset where
  "example_ds =
     \<lparr>sel_nearest = (\<lambda>lat lon. Inr \<lparr>buf = 0, assign_fault = None,
                                       dim0_coord = Some [Fin 400, Fin 500]\<rparr>),
      values_shared = True,
      wavelengths = Some [Fin 400, Fin 500]\<rparr>"

definition example_host :: host_map where
  "example_host =
     \<lparr>controls = [],
      interaction_callbacks = [],
      default_style = ''default'',
      cog_layer_dict = Some [(''emit'', Some example_ds)],
      plot_markers = None,
      plot_marker_cluster = Some [],
      spectral_data = None,
      file_chooser = None,
      file_chooser_control = None,
      csv_exports = [],
      closed_choosers = [],
      arrays = (\<lambda>a. [Fin (- 1), Fin 2]),
      strict_controls = True,
      faults_suppressed = False\<rparr>"

definition example_world :: world where
  "example_world =
     \<lparr>controls = [OutputControl, SpectralControl],
      interaction_callbacks = [HandleInteraction],
      default_style = ''default'',
      cog_layer_dict = Some [(''emit'', Some example_ds)],
      plot_markers = None,
      plot_marker_cluster = Some [],
      spectral_data = Some Map.empty,
      file_chooser = None,
      file_chooser_control = None,
      csv_exports = [],
      closed_choosers = [],
      arrays = (\<lambda>a. [Fin (- 1), Fin 2]),
      strict_controls = True,
      faults_suppressed = False,
      on_close = True,
      output_widget = True,
      output_control = True,
      spectral_widget = True,
      spectral_control = True,
      layers_options = [''emit''],
      layers_value = Some ''emit'',
      output_contents = [],
      output_closed = False,
      widget_closed = False,
      on_close_calls = 0,
      next_chooser = 0\<rparr>"

definition example_click :: event where
  "example_click = \<lparr>coordinates = Some [Num (1 / 2), Num (- 3)], etype = Some ''click''\<rparr>"

definition example_move :: event where
  "example_move = \<lparr>coordinates = Some [Num (1 / 2), Num (- 3)], etype = Some ''mousemove''\<rparr>"

text \<open>The widget after one click at latitude 0.5, longitude -3: first with the marker, then with the sample.\<close>

definition example_marked :: world where
  "example_marked = example_world\<lparr>output_contents := [], plot_markers := Some [[Num (1 / 2), Num (- 3)]],
                             plot_marker_cluster := Some [[Num (1 / 2), Num (- 3)]]\<rparr>"

definition example_clicked :: world where
  "example_clicked = example_marked
        \<lparr>spectral_data := Some [''wavelengths'' \<mapsto> Owned [Fin 400, Fin 500],
                                 ''(0.5000 -3.0000)'' \<mapsto> View 0],
         arrays := (\<lambda>a. [Fin (- 1), Fin 2])(0 := [NaN, Fin 2]),
         output_contents := [Plot [Fin 400, Fin 500] [NaN, Fin 2]],
         default_style := ''crosshair''\<rparr>"

section \<open>Properties\<close>

subsection \<open>What each callback leaves alone\<close>

lemmas host_defs = add_def remove_control_def on_interaction_def spectral_to_csv_def

lemma add_marker_frame:
  "add_marker m s = (e, s') \<Longrightarrow>
     controls s' = controls s \<and> interaction_callbacks s' = interaction_callbacks s
     \<and> output_control s' = output_control s \<and> spectral_control s' = spectral_control s
     \<and> spectral_data s' = spectral_data s \<and> cog_layer_dict s' = cog_layer_dict s
     \<and> arrays s' = arrays s \<and> layers_value s' = layers_value s"
  by (auto simp add: add_marker_def Let_def split: option.splits if_splits)

lemma record_sample_frame:
  "record_sample ds da lat lon s = (e, s') \<Longrightarrow>
     controls s' = controls s \<and> interaction_callbacks s' = interaction_callbacks s
     \<and> output_control s' = output_control s \<and> spectral_control s' = spectral_control s
     \<and> (spectral_data s \<noteq> None \<longrightarrow> spectral_data s' \<noteq> None)"
  by (auto simp add: record_sample_def Let_def split: option.splits if_splits)

lemma with_block_frame:
  "with_block m lat lon n s = (e, s') \<Longrightarrow>
     controls s' = controls s \<and> interaction_callbacks s' = interaction_callbacks s
     \<and> output_control s' = output_control s \<and> spectral_control s' = spectral_control s
     \<and> (spectral_data s \<noteq> None \<longrightarrow> spectral_data s' \<noteq> None)"
  by (auto simp add: with_block_def split: option.splits sum.splits prod.splits
      dest!: add_marker_frame record_sample_frame)

lemma on_click_frame:
  "on_click m lat lon s = (e, s') \<Longrightarrow>
     controls s' = controls s \<and> interaction_callbacks s' = interaction_callbacks s
     \<and> output_control s' = output_control s \<and> spectral_control s' = spectral_control s
     \<and> (spectral_data s \<noteq> None \<longrightarrow> spectral_data s' \<noteq> None)"
  by (auto simp add: on_click_def Let_def split: option.splits prod.splits if_splits
      dest!: with_block_frame)

lemma handle_interaction_frame:
  "handle_interaction kw s = (e, s') \<Longrightarrow>
     controls s' = controls s \<and> interaction_callbacks s' = interaction_callbacks s
     \<and> output_control s' = output_control s \<and> spectral_control s' = spectral_control s
     \<and> (spectral_data s \<noteq> None \<longrightarrow> spectral_data s' \<noteq> None)"
  by (auto simp add: handle_interaction_def split: option.splits list.splits if_splits
      dest!: on_click_frame)

lemma interaction_frame:
  "interaction kw s = (e, s') \<Longrightarrow>
     controls s' = controls s \<and> interaction_callbacks s' = interaction_callbacks s
     \<and> output_control s' = output_control s \<and> spectral_control s' = spectral_control s
     \<and> (spectral_data s \<noteq> None \<longrightarrow> spectral_data s' \<noteq> None)"
  by (auto simp add: interaction_def split: if_splits dest!: handle_interaction_frame)

lemma reset_frame:
  "reset_btn_click s = (e, s') \<Longrightarrow>
     controls s' = controls s \<and> interaction_callbacks s' = interaction_callbacks s
     \<and> output_control s' = output_control s \<and> spectral_control s' = spectral_control s
     \<and> (spectral_data s \<noteq> None \<longrightarrow> spectral_data s' \<noteq> None)"
  by (auto simp add: reset_btn_click_def Let_def split: if_splits)

lemma save_frame:
  "save_btn_click s = (e, s') \<Longrightarrow>
     set (controls s') \<subseteq> set (controls s) \<union> range FileChooserControl
     \<and> set (controls s) \<subseteq> set (controls s')
     \<and> interaction_callbacks s' = interaction_callbacks s
     \<and> output_control s' = output_control s \<and> spectral_control s' = spectral_control s
     \<and> (spectral_data s \<noteq> None \<longrightarrow> spectral_data s' \<noteq> None)"
  by (auto simp add: save_btn_click_def Let_def add_def split: if_splits)

lemma chooser_callback_frame:
  "chooser_callback ch s = (e, s') \<Longrightarrow>
     set (controls s') \<subseteq> set (controls s)
     \<and> set (controls s) \<subseteq> set (controls s') \<union> range FileChooserControl
     \<and> interaction_callbacks s' = interaction_callbacks s
     \<and> output_control s' = output_control s \<and> spectral_control s' = spectral_control s
     \<and> (spectral_data s \<noteq> None \<longrightarrow> spectral_data s' \<noteq> None)"
  by (auto simp add: chooser_callback_def Let_def host_defs
      split: if_splits option.splits prod.splits)

lemma release_output_frame:
  "release_output s = (e, s') \<Longrightarrow>
     set (controls s') \<subseteq> set (controls s)
     \<and> interaction_callbacks s' = interaction_callbacks s
     \<and> output_control s' = output_control s \<and> spectral_control s' = spectral_control s
     \<and> spectral_data s' = spectral_data s"
  by (auto simp add: release_output_def host_defs split: if_splits)

lemma release_spectral_frame:
  "release_spectral s = (e, s') \<Longrightarrow>
     set (controls s') \<subseteq> set (controls s)
     \<and> interaction_callbacks s' = interaction_callbacks s
     \<and> output_control s' = output_control s
     \<and> spectral_data s' = spectral_data s"
  by (auto simp add: release_spectral_def host_defs Let_def split: if_splits)

lemma clear_shared_frame:
  "controls (clear_shared s) = controls s"
  "interaction_callbacks (clear_shared s) = interaction_callbacks s"
  "output_control (clear_shared s) = output_control s"
  "spectral_control (clear_shared s) = spectral_control s"
  "spectral_data s \<noteq> None \<Longrightarrow> spectral_data (clear_shared s) = Some Map.empty"
  "spectral_data s = None \<Longrightarrow> spectral_data (clear_shared s) = None"
  by (auto simp add: clear_shared_def Let_def)

lemma cleanup_frame:
  "cleanup s = (e, s') \<Longrightarrow>
     set (controls s') \<subseteq> set (controls s)
     \<and> HandleInteraction \<notin> set (interaction_callbacks s')
     \<and> output_control s' = output_control s
     \<and> (spectral_data s \<noteq> None \<longrightarrow> spectral_data s' \<noteq> None)"
  by (auto simp add: cleanup_def Let_def on_interaction_def clear_shared_frame
      split: option.splits prod.splits if_splits
      dest!: release_output_frame release_spectral_frame)
     blast+

lemma step_spectral_data:
  "spectral_data s \<noteq> None \<Longrightarrow> spectral_data (snd (step a s)) \<noteq> None"
  by (cases a; cases "step a s")
     (auto dest!: interaction_frame reset_frame save_frame chooser_callback_frame cleanup_frame)

lemma run_spectral_data:
  "spectral_data s \<noteq> None \<Longrightarrow> spectral_data (run acts s) \<noteq> None"
proof (induction acts arbitrary: s)
  case Nil
  then show ?case by simp
next
  case (Cons a acts)
  from Cons.prems have "spectral_data (snd (step a s)) \<noteq> None"
    by (rule step_spectral_data)
  then have "spectral_data (run acts (snd (step a s))) \<noteq> None"
    by (rule Cons.IH)
  then show ?case by simp
qed

lemma init_spectral_data:
  "init h = Inr s \<Longrightarrow>
     spectral_data s = (case spectral_data h of None \<Rightarrow> Some Map.empty | Some sd \<Rightarrow> Some sd)"
  by (auto simp add: init_def Let_def host_defs new_widget_def split: option.splits if_splits)

lemma example_init: "init example_host = Inr (example_world\<lparr>on_close := False\<rparr>)"
  by (simp add: init_def example_host_def example_world_def new_widget_def host_defs Let_def)


lemma init_active: "init h = Inr s \<Longrightarrow> is_active s"
  by (auto simp add: init_def Let_def host_defs new_widget_def is_active_def
      split: option.splits if_splits)

lemma step_active: "is_active s \<Longrightarrow> a \<noteq> Close \<Longrightarrow> is_active (snd (step a s))"
  by (cases a; cases "step a s")
     (auto simp add: is_active_def
       dest!: interaction_frame reset_frame save_frame chooser_callback_frame)

lemma step_closed: "is_closed s \<Longrightarrow> is_closed (snd (step a s))"
  by (cases a; cases "step a s")
     (auto simp add: is_closed_def
       dest!: interaction_frame reset_frame save_frame chooser_callback_frame cleanup_frame)

lemma run_closed: "is_closed s \<Longrightarrow> is_closed (run acts s)"
proof (induction acts arbitrary: s)
  case Nil
  then show ?case by simp
next
  case (Cons a acts)
  from Cons.prems have "is_closed (snd (step a s))" by (rule step_closed)
  then have "is_closed (run acts (snd (step a s)))" by (rule Cons.IH)
  then show ?case by simp
qed

lemma release_output_ok:
  assumes "output_control s" "OutputControl \<in> set (controls s)"
  shows "fst (release_output s) = None"
    and "controls (snd (release_output s)) = removeAll OutputControl (controls s)"
    and "interaction_callbacks (snd (release_output s)) = interaction_callbacks s"
    and "spectral_control (snd (release_output s)) = spectral_control s"
  using assms by (simp_all add: release_output_def remove_control_def)

lemma release_spectral_ok:
  assumes "spectral_control s" "SpectralControl \<in> set (controls s)"
  shows "fst (release_spectral s) = None"
    and "controls (snd (release_spectral s)) = removeAll SpectralControl (controls s)"
    and "interaction_callbacks (snd (release_spectral s)) = interaction_callbacks s"
  using assms by (simp_all add: release_spectral_def remove_control_def Let_def)

lemma cleanup_active:
  assumes "is_active s"
  shows "fst (cleanup s) = None \<and> is_closed (snd (cleanup s))"
proof -
  define s1 where "s1 = on_interaction HandleInteraction True (s\<lparr>default_style := ''default''\<rparr>)"
  have s1: "output_control s1" "OutputControl \<in> set (controls s1)"
    "spectral_control s1" "SpectralControl \<in> set (controls s1)"
    "HandleInteraction \<notin> set (interaction_callbacks s1)"
    using assms by (simp_all add: s1_def is_active_def on_interaction_def)
  obtain s2 where r1: "release_output s1 = (None, s2)"
    using release_output_ok(1) [OF s1(1,2)] by (cases "release_output s1") simp
  have s2: "spectral_control s2" "SpectralControl \<in> set (controls s2)"
    "OutputControl \<notin> set (controls s2)"
    "HandleInteraction \<notin> set (interaction_callbacks s2)"
    using release_output_ok(2,3,4) [OF s1(1,2)] s1 r1 by simp_all
  obtain s3 where r2: "release_spectral s2 = (None, s3)"
    using release_spectral_ok(1) [OF s2(1,2)] by (cases "release_spectral s2") simp
  have s3: "SpectralControl \<notin> set (controls s3)" "OutputControl \<notin> set (controls s3)"
    "HandleInteraction \<notin> set (interaction_callbacks s3)"
    using release_spectral_ok(2,3) [OF s2(1,2)] s2 r2 by simp_all
  have c: "cleanup s = (None, if on_close (clear_shared s3)
              then (clear_shared s3)\<lparr>on_close_calls := Suc (on_close_calls (clear_shared s3))\<rparr>
              else clear_shared s3)"
    using r1 r2 by (simp add: cleanup_def Let_def s1_def [symmetric])
  show ?thesis
    using s3 by (simp add: c is_closed_def clear_shared_frame)
qed

lemma interaction_closed: "is_closed s \<Longrightarrow> interaction kw s = (None, s)"
  by (simp add: is_closed_def interaction_def)

subsection \<open>Closing, step by step\<close>

lemma release_output_cases:
  assumes "release_output s = (e, s')"
  shows "e = None \<or> e = Some ControlException"
    and "plot_markers s' = plot_markers s" and "plot_marker_cluster s' = plot_marker_cluster s"
    and "spectral_data s' = spectral_data s" and "spectral_widget s' = spectral_widget s"
    and "on_close s' = on_close s" and "on_close_calls s' = on_close_calls s"
    and "strict_controls s' = strict_controls s"
    and "e = None \<Longrightarrow> output_control s \<Longrightarrow> \<not> output_widget s' \<and> OutputControl \<notin> set (controls s')"
    and "\<not> output_control s \<or> \<not> output_widget s \<Longrightarrow> output_widget s' = output_widget s"
    and "e \<noteq> None \<Longrightarrow> s' = s \<and> strict_controls s \<and> OutputControl \<notin> set (controls s)"
    and "SpectralControl \<in> set (controls s') \<longleftrightarrow> SpectralControl \<in> set (controls s)"
  using assms
  by (auto simp add: release_output_def remove_control_def split: if_splits)

lemma release_spectral_cases:
  assumes "release_spectral s = (e, s')"
  shows "e = None \<or> e = Some ControlException"
    and "plot_markers s' = plot_markers s" and "plot_marker_cluster s' = plot_marker_cluster s"
    and "spectral_data s' = spectral_data s" and "output_widget s' = output_widget s"
    and "on_close s' = on_close s" and "on_close_calls s' = on_close_calls s"
    and "strict_controls s' = strict_controls s"
    and "e = None \<Longrightarrow> \<not> spectral_control s'"
    and "e = None \<Longrightarrow> spectral_control s \<Longrightarrow> SpectralControl \<notin> set (controls s')"
    and "\<not> spectral_control s \<Longrightarrow> e = None \<and> s' = s"
    and "e \<noteq> None \<Longrightarrow> s' = s"
    and "OutputControl \<in> set (controls s') \<longleftrightarrow> OutputControl \<in> set (controls s)"
  using assms
  by (auto simp add: release_spectral_def remove_control_def Let_def split: if_splits)

lemma clear_shared_fields:
  "plot_marker_cluster s \<noteq> None \<Longrightarrow>
     plot_markers (clear_shared s) = Some [] \<and> plot_marker_cluster (clear_shared s) = Some []"
  "plot_marker_cluster s = None \<Longrightarrow>
     plot_markers (clear_shared s) = plot_markers s \<and> plot_marker_cluster (clear_shared s) = None"
  "output_widget (clear_shared s) = output_widget s"
  "spectral_widget (clear_shared s) = spectral_widget s"
  "on_close (clear_shared s) = on_close s"
  "on_close_calls (clear_shared s) = on_close_calls s"
  "strict_controls (clear_shared s) = strict_controls s"
  "output_widget s \<Longrightarrow> output_contents (clear_shared s) = []"
  by (simp_all add: clear_shared_def Let_def)

lemma cleanup_cases:
  assumes "cleanup s = (e, s')"
  defines "s1 \<equiv> on_interaction HandleInteraction True (s\<lparr>default_style := ''default''\<rparr>)"
  shows "(\<exists>x. release_output s1 = (Some x, s') \<and> e = Some x)
         \<or> (\<exists>s2. release_output s1 = (None, s2)
              \<and> ((\<exists>x. release_spectral s2 = (Some x, s') \<and> e = Some x)
                  \<or> (\<exists>s3. release_spectral s2 = (None, s3) \<and> e = None
                        \<and> s' = (if on_close (clear_shared s3)
                                 then (clear_shared s3)\<lparr>on_close_calls :=
                                        Suc (on_close_calls (clear_shared s3))\<rparr>
                                 else clear_shared s3))))"
  using assms(1) unfolding s1_def
  by (auto simp add: cleanup_def Let_def split: prod.splits option.splits)


lemma cleanup_post:
  assumes "cleanup s = (None, s')"
  shows "HandleInteraction \<notin> set (interaction_callbacks s')
     \<and> \<not> spectral_control s'
     \<and> (output_control s \<longrightarrow> \<not> output_widget s' \<and> OutputControl \<notin> set (controls s'))
     \<and> (spectral_control s \<longrightarrow> SpectralControl \<notin> set (controls s'))
     \<and> (plot_marker_cluster s \<noteq> None \<longrightarrow>
           plot_markers s' = Some [] \<and> plot_marker_cluster s' = Some [])
     \<and> (plot_marker_cluster s = None \<longrightarrow>
           plot_markers s' = plot_markers s \<and> plot_marker_cluster s' = None)
     \<and> (spectral_data s \<noteq> None \<longrightarrow> spectral_data s' = Some Map.empty)
     \<and> (spectral_data s = None \<longrightarrow> spectral_data s' = None)
     \<and> on_close_calls s' = (if on_close s then Suc (on_close_calls s) else on_close_calls s)
     \<and> output_control s' = output_control s \<and> strict_controls s' = strict_controls s
     \<and> on_close s' = on_close s"
proof -
  define s1 where "s1 = on_interaction HandleInteraction True (s\<lparr>default_style := ''default''\<rparr>)"
  from cleanup_cases [OF assms] obtain s2 s3
    where r1: "release_output s1 = (None, s2)"
      and r2: "release_spectral s2 = (None, s3)"
      and e: "s' = (if on_close (clear_shared s3)
                    then (clear_shared s3)\<lparr>on_close_calls := Suc (on_close_calls (clear_shared s3))\<rparr>
                    else clear_shared s3)"
    unfolding s1_def by auto
  note a = release_output_cases [OF r1] and b = release_spectral_cases [OF r2]
  have f1: "plot_markers s1 = plot_markers s" "plot_marker_cluster s1 = plot_marker_cluster s"
    "spectral_data s1 = spectral_data s" "on_close s1 = on_close s"
    "on_close_calls s1 = on_close_calls s" "output_control s1 = output_control s"
    "spectral_control s1 = spectral_control s" "strict_controls s1 = strict_controls s"
    by (simp_all add: s1_def on_interaction_def)
  have oc: "output_control s3 = output_control s" "spectral_control s2 = spectral_control s"
    using release_output_frame [OF r1] release_spectral_frame [OF r2] f1 by simp_all
  have g1: "HandleInteraction \<notin> set (interaction_callbacks s')"
    using cleanup_frame [OF assms] by simp
  have g2: "\<not> spectral_control s'"
    using b(9) by (simp add: e clear_shared_frame)
  have g3: "output_control s \<longrightarrow> \<not> output_widget s' \<and> OutputControl \<notin> set (controls s')"
    using a(9) b(5) b(13) f1 by (simp add: e clear_shared_frame clear_shared_fields)
  have g4: "spectral_control s \<longrightarrow> SpectralControl \<notin> set (controls s')"
    using b(10) oc by (simp add: e clear_shared_frame)
  have m3: "plot_markers s3 = plot_markers s" "plot_marker_cluster s3 = plot_marker_cluster s"
    "spectral_data s3 = spectral_data s" "on_close s3 = on_close s"
    "on_close_calls s3 = on_close_calls s" "strict_controls s3 = strict_controls s"
    using a b f1 by simp_all
  have g5: "plot_marker_cluster s \<noteq> None \<longrightarrow>
           plot_markers s' = Some [] \<and> plot_marker_cluster s' = Some []"
    using m3 clear_shared_fields(1) [of s3] by (simp add: e)
  have g6: "plot_marker_cluster s = None \<longrightarrow>
           plot_markers s' = plot_markers s \<and> plot_marker_cluster s' = None"
    using m3 clear_shared_fields(2) [of s3] by (simp add: e)
  have g7: "spectral_data s \<noteq> None \<longrightarrow> spectral_data s' = Some Map.empty"
    using m3 clear_shared_frame(5) [of s3] by (simp add: e)
  have g8: "spectral_data s = None \<longrightarrow> spectral_data s' = None"
    using m3 clear_shared_frame(6) [of s3] by (simp add: e)
  have g9: "on_close_calls s' = (if on_close s then Suc (on_close_calls s) else on_close_calls s)"
    using m3 by (simp add: e clear_shared_fields)
  have g10: "output_control s' = output_control s \<and> strict_controls s' = strict_controls s
     \<and> on_close s' = on_close s"
    using m3 oc by (simp add: e clear_shared_fields clear_shared_frame)
  show ?thesis
    using g1 g2 g3 g4 g5 g6 g7 g8 g9 g10 by blast
qed


lemma cleanup_again:
  assumes sc: "\<not> spectral_control t"
    and ow: "output_control t \<longrightarrow> \<not> output_widget t"
    and mk: "plot_marker_cluster t \<noteq> None \<longrightarrow>
               plot_markers t = Some [] \<and> plot_marker_cluster t = Some []"
    and sd: "spectral_data t \<noteq> None \<longrightarrow> spectral_data t = Some Map.empty"
    and c: "cleanup t = (e, t')"
  shows "(e = None \<or> e = Some ControlException)
     \<and> plot_markers t' = plot_markers t \<and> plot_marker_cluster t' = plot_marker_cluster t
     \<and> spectral_data t' = spectral_data t \<and> output_widget t' = output_widget t
     \<and> spectral_control t' = spectral_control t \<and> spectral_widget t' = spectral_widget t"
proof -
  define t1 where "t1 = on_interaction HandleInteraction True (t\<lparr>default_style := ''default''\<rparr>)"
  have f1: "plot_markers t1 = plot_markers t" "plot_marker_cluster t1 = plot_marker_cluster t"
    "spectral_data t1 = spectral_data t" "output_widget t1 = output_widget t"
    "output_control t1 = output_control t" "spectral_widget t1 = spectral_widget t"
    "spectral_control t1 = spectral_control t"
    by (simp_all add: t1_def on_interaction_def)
  from cleanup_cases [OF c] consider
      (A) x where "release_output t1 = (Some x, t')" "e = Some x"
    | (B) t2 x where "release_output t1 = (None, t2)" "release_spectral t2 = (Some x, t')"
    | (C) t2 t3 where "release_output t1 = (None, t2)" "release_spectral t2 = (None, t3)"
        "e = None"
        "t' = (if on_close (clear_shared t3)
               then (clear_shared t3)\<lparr>on_close_calls := Suc (on_close_calls (clear_shared t3))\<rparr>
               else clear_shared t3)"
    unfolding t1_def by (elim disjE exE conjE) blast+
  then show ?thesis
  proof cases
    case A
    note a = release_output_cases [OF A(1)]
    have "t' = t1" using a(11) by simp
    moreover have "x = ControlException" using a(1) by simp
    ultimately show ?thesis using A(2) f1 by simp
  next
    case B
    have "spectral_control t2 = spectral_control t1"
      using release_output_frame [OF B(1)] by simp
    then have "\<not> spectral_control t2" using f1 sc by simp
    from release_spectral_cases(11) [OF B(2) this] show ?thesis by simp
  next
    case C
    note a = release_output_cases [OF C(1)]
    have s2: "spectral_control t2 = spectral_control t1"
      using release_output_frame [OF C(1)] by simp
    then have n: "\<not> spectral_control t2" using f1 sc by simp
    have t3: "t3 = t2" using release_spectral_cases(11) [OF C(2) n] by simp
    have w2: "output_widget t2 = output_widget t1"
      using a(10) ow f1 by blast
    have m: "plot_markers (clear_shared t2) = plot_markers t"
      "plot_marker_cluster (clear_shared t2) = plot_marker_cluster t"
      using clear_shared_fields(1,2) [of t2] a(2,3) f1 mk
      by (cases "plot_marker_cluster t"; simp)+
    have d: "spectral_data (clear_shared t2) = spectral_data t"
      using clear_shared_frame(5,6) [of t2] a(4) f1 sd
      by (cases "spectral_data t"; simp)
    show ?thesis
      using C(3) m d w2 s2 a(5) f1
      by (simp add: C(4) t3 clear_shared_fields clear_shared_frame)
  qed
qed

lemma example_active: "is_active example_world"
  by (simp add: is_active_def example_world_def)

lemma example_cleanup_ok: "fst (cleanup example_world) = None"
  using cleanup_active [of example_world]
  by (simp add: is_active_def example_world_def)

lemmas eval_defs = cleanup_def release_output_def release_spectral_def clear_shared_def
  remove_control_def on_interaction_def add_def spectral_to_csv_def Let_def

subsection \<open>The concrete widget, evaluated\<close>

lemma example_key: "sample_key (Num (1 / 2)) (Num (- 3)) = ''(0.5000 -3.0000)''"
  apply (simp add: sample_key_def fmt4f_def round_half_even_def Let_def digits10.simps)
  apply (simp only: numeral_3_eq_3 replicate.simps)
  done

lemma example_fields:
  "output_widget example_world" "plot_markers example_world = None"
  "plot_marker_cluster example_world = Some []"
  "cog_layer_dict example_world = Some [(''emit'', Some example_ds)]"
  "layers_value example_world = Some ''emit''"
  "spectral_data example_world = Some Map.empty"
  "arrays example_world = (\<lambda>a. [Fin (- 1), Fin 2])"
  "output_contents example_world = []"
  by (simp_all add: example_world_def)

lemma example_ds_fields:
  "sel_nearest example_ds lat lon = Inr \<lparr>buf = 0, assign_fault = None, dim0_coord = Some [Fin 400, Fin 500]\<rparr>"
  "values_shared example_ds" "wavelengths example_ds = Some [Fin 400, Fin 500]"
  by (simp_all add: example_ds_def)

lemma example_add_marker:
  "add_marker [Num (1 / 2), Num (- 3)] (example_world\<lparr>output_contents := []\<rparr>) = (None, example_marked)"
  by (simp add: add_marker_def Let_def example_fields example_marked_def)

lemma example_lookup: "lookup_xds (Some ''emit'') example_marked = Inr example_ds"
  by (simp add: lookup_xds_def example_fields example_marked_def)

lemma example_marked_fields:
  "spectral_data example_marked = Some Map.empty"
  "arrays example_marked = (\<lambda>a. [Fin (- 1), Fin 2])"
  "output_contents example_marked = []"
  "output_widget example_marked"
  "plot_markers example_marked = Some [[Num (1 / 2), Num (- 3)]]"
  "plot_marker_cluster example_marked = Some [[Num (1 / 2), Num (- 3)]]"
  by (simp_all add: example_marked_def example_fields)

lemma example_record_sample:
  "record_sample example_ds \<lparr>buf = 0, assign_fault = None, dim0_coord = Some [Fin 400, Fin 500]\<rparr> (Num (1 / 2)) (Num (- 3))
     example_marked
   = (None, example_marked
        \<lparr>spectral_data := Some [''wavelengths'' \<mapsto> Owned [Fin 400, Fin 500],
                                 ''(0.5000 -3.0000)'' \<mapsto> View 0],
         arrays := (\<lambda>a. [Fin (- 1), Fin 2])(0 := [NaN, Fin 2]),
         output_contents := [Plot [Fin 400, Fin 500] [NaN, Fin 2]]\<rparr>)"
  by (simp add: record_sample_def Let_def example_marked_fields example_ds_fields
      example_key mask_negative_def)

lemma example_handle_click:
  "handle_interaction example_click example_world = (None, example_clicked)"
  by (simp add: handle_interaction_def example_click_def on_click_def with_block_def
      example_fields example_add_marker example_lookup example_ds_fields
      example_record_sample example_clicked_def)

lemma example_clicked_fields:
  "output_widget example_clicked"
  "plot_markers example_clicked = Some [[Num (1 / 2), Num (- 3)]]"
  "plot_marker_cluster example_clicked = Some [[Num (1 / 2), Num (- 3)]]"
  "output_contents example_clicked = [Plot [Fin 400, Fin 500] [NaN, Fin 2]]"
  "spectral_data example_clicked
     = Some [''wavelengths'' \<mapsto> Owned [Fin 400, Fin 500], ''(0.5000 -3.0000)'' \<mapsto> View 0]"
  by (simp_all add: example_clicked_def example_marked_fields)

lemma init_succeeds:
  "cog_layer_dict h \<noteq> None \<Longrightarrow> \<exists>s0. init h = Inr s0"
  by (auto simp add: init_def Let_def)

subsection \<open>The wavelengths entry and the stored sample\<close>
















lemma example_unclustered:
  "handle_interaction example_click (example_world\<lparr>plot_marker_cluster := None\<rparr>)
     = (Some (AttributeError ''_plot_marker_cluster''),
        example_world\<lparr>plot_marker_cluster := None, output_contents := [],
                      plot_markers := Some []\<rparr>)"
  by (simp add: handle_interaction_def example_click_def on_click_def with_block_def
      add_marker_def Let_def example_world_def)

subsection \<open>The claims\<close>

text \<open>
  C9. Construction gives the host map an empty spectral sample mapping when it has none and
  leaves an existing one as it is, so the attribute exists once the widget is built; and
  after any sequence of later actions (interaction events, Reset, Save, a chooser calling
  back, Close), whether they fault or not, one more action still leaves the attribute in
  place.
\<close>

theorem spectral_data_exists_from_construction:
  assumes "init h = Inr s"
  shows "(spectral_data h = None \<longrightarrow> spectral_data s = Some Map.empty)
         \<and> (spectral_data h \<noteq> None \<longrightarrow> spectral_data s = spectral_data h)
         \<and> spectral_data s \<noteq> None
         \<and> spectral_data (snd (step a (run acts s))) \<noteq> None"
proof -
  have s: "spectral_data s \<noteq> None"
    using init_spectral_data [OF assms] by (simp split: option.splits)
  show ?thesis
    using init_spectral_data [OF assms] s
    by (auto simp add: step_spectral_data run_spectral_data split: option.splits)
qed

theorem spectral_data_exists_from_construction_witness:
  "init example_host = Inr (example_world\<lparr>on_close := False\<rparr>)
   \<and> spectral_data example_host = None
   \<and> spectral_data (example_world\<lparr>on_close := False\<rparr>) = Some Map.empty
   \<and> spectral_data (snd (step Close (run [Interaction example_click, Save, Reset]
         (example_world\<lparr>on_close := False\<rparr>)))) \<noteq> None"
proof -
  have h: "spectral_data example_host = None"
    by (simp add: example_host_def)
  have w: "spectral_data (example_world\<lparr>on_close := False\<rparr>) = Some Map.empty"
    by (simp add: example_world_def)
  show ?thesis
    using spectral_data_exists_from_construction
      [OF example_init, of Close "[Interaction example_click, Save, Reset]"]
      h w example_init
    by simp
qed

text \<open>
  C10. The handler indexes the coordinates at positions 0 and 1 before it tests the type of
  the event: an event of any type that carries no coordinates faults (with a
  \<^verbatim>\<open>TypeError\<close>, the world untouched), and an event whose type is not \<^verbatim>\<open>"click"\<close>
  changes nothing at all, so neither the markers, nor the spectral data, nor the output
  panel.
\<close>

theorem handle_interaction_coordinates_first:
  "handle_interaction \<lparr>coordinates = None, etype = t\<rparr> s = (Some TypeError, s)
   \<and> (etype kwargs \<noteq> Some ''click'' \<longrightarrow> snd (handle_interaction kwargs s) = s)"
  by (simp add: handle_interaction_def split: option.splits list.splits)

theorem handle_interaction_coordinates_first_witness:
  "etype example_move \<noteq> Some ''click''
   \<and> snd (handle_interaction example_move example_world) = example_world
   \<and> handle_interaction \<lparr>coordinates = None, etype = Some ''click''\<rparr> example_world
       = (Some TypeError, example_world)"
  using handle_interaction_coordinates_first
    [of "Some ''click''" example_world example_move]
  by (simp add: example_move_def)

text \<open>
  C6. The widget has two states. Construction succeeds on every host map that has
  \<^verbatim>\<open>cog_layer_dict\<close> and leaves the widget active: the handler subscribed, both overlay
  controls on the map. Every action but Close keeps an active widget active. Close (the
  button, or a call of \<^verbatim>\<open>cleanup\<close>) takes an active widget to closed without a fault.
  No action takes a closed widget out of the closed state, and an interaction event that
  reaches the map of a closed widget, after any further actions, changes nothing: no panel
  update, no change of the spectral sample mapping.
\<close>

theorem widget_two_states:
  "(cog_layer_dict h \<noteq> None \<longrightarrow> (\<exists>s0. init h = Inr s0 \<and> is_active s0))
   \<and> (init h = Inr s0 \<longrightarrow> is_active s0)
   \<and> (is_active s \<and> a \<noteq> Close \<longrightarrow> is_active (snd (step a s)))
   \<and> (is_active s \<longrightarrow> fst (step Close s) = None \<and> is_closed (snd (step Close s)))
   \<and> (is_closed s \<longrightarrow> is_closed (run acts s)
        \<and> interaction kwargs (run acts s) = (None, run acts s))"
proof -
  have "cog_layer_dict h \<noteq> None \<longrightarrow> (\<exists>s0. init h = Inr s0 \<and> is_active s0)"
    using init_succeeds [of h] init_active [of h] by blast
  moreover have "init h = Inr s0 \<longrightarrow> is_active s0"
    using init_active by blast
  moreover have "is_active s \<and> a \<noteq> Close \<longrightarrow> is_active (snd (step a s))"
    using step_active by blast
  moreover have "is_active s \<longrightarrow> fst (step Close s) = None \<and> is_closed (snd (step Close s))"
    using cleanup_active [of s] by simp
  moreover have "is_closed s \<longrightarrow> is_closed (run acts s)
        \<and> interaction kwargs (run acts s) = (None, run acts s)"
    using run_closed [of s acts] interaction_closed [of "run acts s" kwargs] by blast
  ultimately show ?thesis by blast
qed

theorem widget_two_states_witness:
  "cog_layer_dict example_host \<noteq> None
   \<and> init example_host = Inr (example_world\<lparr>on_close := False\<rparr>)
   \<and> is_active (example_world\<lparr>on_close := False\<rparr>)
   \<and> is_active example_world
   \<and> is_active (snd (step Save example_world))
   \<and> fst (step Close example_world) = None
   \<and> is_closed (snd (step Close example_world))
   \<and> is_closed (run [Reset, Save, Interaction example_click] (snd (step Close example_world)))
   \<and> interaction example_click
        (run [Reset, Save, Interaction example_click] (snd (step Close example_world)))
      = (None, run [Reset, Save, Interaction example_click] (snd (step Close example_world)))"
proof -
  have h: "cog_layer_dict example_host \<noteq> None"
    by (simp add: example_host_def)
  have c: "is_closed (snd (step Close example_world))"
    using widget_two_states [of example_host "example_world\<lparr>on_close := False\<rparr>"
        example_world Save "[]" example_click] example_active
    by simp
  show ?thesis
    using widget_two_states [of example_host "example_world\<lparr>on_close := False\<rparr>"
        example_world Save "[]" example_click]
      widget_two_states [of example_host "example_world\<lparr>on_close := False\<rparr>"
        "snd (step Close example_world)" Save "[Reset, Save, Interaction example_click]"
        example_click]
      example_active c example_init h
    by simp
qed

text \<open>
  C7. After a call of \<^verbatim>\<open>cleanup\<close> that completed, a second call raises nothing for the
  attributes guarded by \<^verbatim>\<open>hasattr\<close> nor for the handles the first call set to \<^verbatim>\<open>None\<close>:
  the only fault it can end in is the host map rejecting the removal of the output control,
  whose handle is never cleared. The marker list, the marker cluster, the spectral sample
  mapping and the handles \<^verbatim>\<open>_output_widget\<close>, \<^verbatim>\<open>_spectral_control\<close> and
  \<^verbatim>\<open>_spectral_widget\<close> are after the second call what they were before it.
\<close>

theorem cleanup_twice:
  assumes "cleanup s = (None, s1)"
  shows "(fst (cleanup s1) = None \<or> fst (cleanup s1) = Some ControlException)
     \<and> plot_markers (snd (cleanup s1)) = plot_markers s1
     \<and> plot_marker_cluster (snd (cleanup s1)) = plot_marker_cluster s1
     \<and> spectral_data (snd (cleanup s1)) = spectral_data s1
     \<and> output_widget (snd (cleanup s1)) = output_widget s1
     \<and> spectral_control (snd (cleanup s1)) = spectral_control s1
     \<and> spectral_widget (snd (cleanup s1)) = spectral_widget s1"
proof -
  note p = cleanup_post [OF assms]
  have sc: "\<not> spectral_control s1" using p by simp
  have ow: "output_control s1 \<longrightarrow> \<not> output_widget s1" using p by simp
  have mk: "plot_marker_cluster s1 \<noteq> None \<longrightarrow>
              plot_markers s1 = Some [] \<and> plot_marker_cluster s1 = Some []"
    using p by (cases "plot_marker_cluster s") simp_all
  have sd: "spectral_data s1 \<noteq> None \<longrightarrow> spectral_data s1 = Some Map.empty"
    using p by (cases "spectral_data s") simp_all
  show ?thesis
    using cleanup_again [OF sc ow mk sd, of "fst (cleanup s1)" "snd (cleanup s1)"]
    by simp
qed

theorem cleanup_twice_witness:
  "cleanup example_world = (None, snd (cleanup example_world))
   \<and> fst (cleanup (snd (cleanup example_world))) = Some ControlException
   \<and> plot_markers (snd (cleanup (snd (cleanup example_world))))
       = plot_markers (snd (cleanup example_world))
   \<and> spectral_data (snd (cleanup (snd (cleanup example_world))))
       = spectral_data (snd (cleanup example_world))
   \<and> output_widget (snd (cleanup (snd (cleanup example_world))))
       = output_widget (snd (cleanup example_world))"
proof -
  have c: "cleanup example_world = (None, snd (cleanup example_world))"
    using example_cleanup_ok by (cases "cleanup example_world") simp
  have e: "fst (cleanup (snd (cleanup example_world))) = Some ControlException"
    by (simp add: cleanup_def release_output_def release_spectral_def clear_shared_def
        remove_control_def on_interaction_def Let_def example_world_def)
  show ?thesis
    using cleanup_twice [OF c] c e by simp
qed

text \<open>
  C3, amended. In every state in which the widget is active, Close completes without a
  fault; afterwards the click handler is unsubscribed, neither overlay control is on the
  host map, the spectral sample mapping is empty, the marker list and the marker cluster
  are empty when the host map has a marker cluster, and the \<^verbatim>\<open>on_close\<close> callback, when
  set, has been invoked once more.
\<close>

theorem cleanup_active_effect:
  assumes "is_active s"
  shows "fst (cleanup s) = None
     \<and> HandleInteraction \<notin> set (interaction_callbacks (snd (cleanup s)))
     \<and> OutputControl \<notin> set (controls (snd (cleanup s)))
     \<and> SpectralControl \<notin> set (controls (snd (cleanup s)))
     \<and> (spectral_data s \<noteq> None \<longrightarrow> spectral_data (snd (cleanup s)) = Some Map.empty)
     \<and> (plot_marker_cluster s \<noteq> None \<longrightarrow>
           plot_markers (snd (cleanup s)) = Some []
           \<and> plot_marker_cluster (snd (cleanup s)) = Some [])
     \<and> on_close_calls (snd (cleanup s))
         = (if on_close s then Suc (on_close_calls s) else on_close_calls s)"
proof -
  have ok: "fst (cleanup s) = None"
    using cleanup_active [OF assms] by simp
  then have c: "cleanup s = (None, snd (cleanup s))"
    by (cases "cleanup s") simp
  have h: "output_control s" "spectral_control s"
    using assms by (simp_all add: is_active_def)
  show ?thesis
    using cleanup_post [OF c] ok h by simp
qed

theorem cleanup_active_effect_witness:
  "is_active example_world
   \<and> fst (cleanup example_world) = None
   \<and> OutputControl \<notin> set (controls (snd (cleanup example_world)))
   \<and> SpectralControl \<notin> set (controls (snd (cleanup example_world)))
   \<and> HandleInteraction \<notin> set (interaction_callbacks (snd (cleanup example_world)))
   \<and> spectral_data (snd (cleanup example_world)) = Some Map.empty
   \<and> plot_markers (snd (cleanup example_world)) = Some []
   \<and> on_close_calls (snd (cleanup example_world)) = 1"
proof -
  have a: "is_active example_world"
    by (simp add: is_active_def example_world_def)
  have f: "spectral_data example_world \<noteq> None" "plot_marker_cluster example_world \<noteq> None"
    "on_close example_world" "on_close_calls example_world = 0"
    by (simp_all add: example_world_def)
  show ?thesis
    using cleanup_active_effect [OF a] a f by simp
qed

text \<open>
  C3 as stated, for every widget state, fails. On a host map that rejects the removal of
  a control it does not hold, Close on the widget that was just closed faults at the output
  control and never reaches the \<^verbatim>\<open>on_close\<close> callback, although one is set. And on a host
  map with markers but no marker cluster, Close leaves the markers.
\<close>

theorem cleanup_every_state_counterexample:
  "on_close (snd (cleanup example_world))
   \<and> fst (cleanup (snd (cleanup example_world))) = Some ControlException
   \<and> on_close_calls (snd (cleanup (snd (cleanup example_world))))
       = on_close_calls (snd (cleanup example_world))
   \<and> plot_markers (snd (cleanup
         (example_world\<lparr>plot_markers := Some [[Num 0, Num 0]], plot_marker_cluster := None\<rparr>)))
       = Some [[Num 0, Num 0]]"
  by (simp add: eval_defs example_world_def)

text \<open>
  C5, amended. In every state in which the widget still holds its output panel, Reset raises
  no error, whichever optional attributes the host map has; afterwards the output panel is
  cleared, the spectral sample mapping is empty when the host map has one, and the marker
  list and the marker cluster are empty when the host map has a marker cluster (without a
  cluster the marker list is left as it is).
\<close>

theorem reset_effect:
  assumes "output_widget s"
  shows "fst (reset_btn_click s) = None
     \<and> output_contents (snd (reset_btn_click s)) = []
     \<and> (spectral_data s \<noteq> None \<longrightarrow> spectral_data (snd (reset_btn_click s)) = Some Map.empty)
     \<and> (spectral_data s = None \<longrightarrow> spectral_data (snd (reset_btn_click s)) = None)
     \<and> (plot_marker_cluster s \<noteq> None \<longrightarrow>
           plot_markers (snd (reset_btn_click s)) = Some []
           \<and> plot_marker_cluster (snd (reset_btn_click s)) = Some [])
     \<and> (plot_marker_cluster s = None \<longrightarrow>
           plot_markers (snd (reset_btn_click s)) = plot_markers s
           \<and> plot_marker_cluster (snd (reset_btn_click s)) = None)"
  using assms by (simp add: reset_btn_click_def Let_def)

theorem reset_effect_witness:
  "handle_interaction example_click example_world = (None, example_clicked)
   \<and> output_widget example_clicked
   \<and> plot_markers example_clicked = Some [[Num (1 / 2), Num (- 3)]]
   \<and> plot_marker_cluster example_clicked = Some [[Num (1 / 2), Num (- 3)]]
   \<and> output_contents example_clicked = [Plot [Fin 400, Fin 500] [NaN, Fin 2]]
   \<and> spectral_data example_clicked
       = Some [''wavelengths'' \<mapsto> Owned [Fin 400, Fin 500], ''(0.5000 -3.0000)'' \<mapsto> View 0]
   \<and> fst (reset_btn_click example_clicked) = None
   \<and> output_contents (snd (reset_btn_click example_clicked)) = []
   \<and> spectral_data (snd (reset_btn_click example_clicked)) = Some Map.empty
   \<and> plot_markers (snd (reset_btn_click example_clicked)) = Some []
   \<and> plot_marker_cluster (snd (reset_btn_click example_clicked)) = Some []"
  using reset_effect [OF example_clicked_fields(1)] example_handle_click example_clicked_fields
  by simp

text \<open>
  C5 as stated, for every widget state, fails. Once Close has released the output panel,
  Reset faults at \<^verbatim>\<open>self._output_widget.clear_output()\<close>. And on a host map with markers
  but no marker cluster, Reset leaves the markers.
\<close>

theorem reset_every_state_counterexample:
  "fst (reset_btn_click (snd (cleanup example_world))) = Some (AttributeError ''clear_output'')
   \<and> plot_markers (snd (reset_btn_click
         (example_world\<lparr>plot_markers := Some [[Num 0, Num 0]], plot_marker_cluster := None\<rparr>)))
       = Some [[Num 0, Num 0]]"
  by (simp add: reset_btn_click_def eval_defs example_world_def)

text \<open>
  C8, amended. When the chooser that calls back has a path selected, \<^verbatim>\<open>spectral_to_csv\<close>
  is called with that path, and when that chooser is the one the host map holds (the one
  the latest Save created) its control is no longer on the map afterwards; when no path is
  selected the callback changes nothing and raises nothing.
\<close>

theorem chooser_callback_effect:
  "(selected ch = Some p \<and> p \<noteq> [] \<longrightarrow>
      csv_exports (snd (chooser_callback ch s)) = csv_exports s @ [p]
      \<and> (file_chooser_control s = Some (chooser_id ch) \<longrightarrow>
            FileChooserControl (chooser_id ch) \<notin> set (controls (snd (chooser_callback ch s)))))
   \<and> (selected ch = None \<or> selected ch = Some [] \<longrightarrow> chooser_callback ch s = (None, s))"
  by (auto simp add: chooser_callback_def spectral_to_csv_def remove_control_def Let_def
      split: option.splits)

theorem chooser_callback_effect_witness:
  "selected \<lparr>chooser_id = 0, selected = Some ''out.csv''\<rparr> = Some ''out.csv''
   \<and> ''out.csv'' \<noteq> []
   \<and> file_chooser_control (snd (save_btn_click example_world)) = Some 0
   \<and> FileChooserControl 0 \<in> set (controls (snd (save_btn_click example_world)))
   \<and> csv_exports (snd (chooser_callback \<lparr>chooser_id = 0, selected = Some ''out.csv''\<rparr>
        (snd (save_btn_click example_world)))) = [''out.csv'']
   \<and> FileChooserControl 0 \<notin> set (controls (snd (chooser_callback
        \<lparr>chooser_id = 0, selected = Some ''out.csv''\<rparr> (snd (save_btn_click example_world)))))
   \<and> chooser_callback \<lparr>chooser_id = 0, selected = None\<rparr> (snd (save_btn_click example_world))
       = (None, snd (save_btn_click example_world))"
proof -
  have f: "file_chooser_control (snd (save_btn_click example_world)) = Some 0"
    "FileChooserControl 0 \<in> set (controls (snd (save_btn_click example_world)))"
    "csv_exports (snd (save_btn_click example_world)) = []"
    by (simp_all add: save_btn_click_def add_def Let_def example_world_def)
  show ?thesis
    using chooser_callback_effect [of "\<lparr>chooser_id = 0, selected = Some ''out.csv''\<rparr>"
        "''out.csv''" "snd (save_btn_click example_world)"]
      chooser_callback_effect [of "\<lparr>chooser_id = 0, selected = None\<rparr>"
        "''out.csv''" "snd (save_btn_click example_world)"]
      f
    by simp
qed

text \<open>
  C8 as stated, for every invocation, fails. After Save was pressed twice the host map holds
  the second chooser. When the first chooser calls back with a path, the export is made,
  but the control that leaves the map is the second chooser's and the chooser that is
  closed is the second; the control of the chooser that called stays on the map.
\<close>

theorem chooser_callback_two_saves_counterexample:
  "selected \<lparr>chooser_id = 0, selected = Some ''out.csv''\<rparr> = Some ''out.csv''
   \<and> FileChooserControl 0 \<in> set (controls (run [Save, Save] example_world))
   \<and> FileChooserControl 0 \<in> set (controls (snd (chooser_callback
        \<lparr>chooser_id = 0, selected = Some ''out.csv''\<rparr> (run [Save, Save] example_world))))
   \<and> FileChooserControl 1 \<notin> set (controls (snd (chooser_callback
        \<lparr>chooser_id = 0, selected = Some ''out.csv''\<rparr> (run [Save, Save] example_world))))
   \<and> closed_choosers (snd (chooser_callback
        \<lparr>chooser_id = 0, selected = Some ''out.csv''\<rparr> (run [Save, Save] example_world))) = [1]"
  by (simp add: chooser_callback_def save_btn_click_def spectral_to_csv_def remove_control_def
      add_def Let_def example_world_def)

text \<open>
  C2. Save on the widget just built, whose spectral sample mapping is empty: the early
  return does not fire, because the attribute exists; a file chooser is created and its
  control is added to the host map.
\<close>

theorem save_btn_click_empty_mapping:
  "init example_host = Inr (example_world\<lparr>on_close := False\<rparr>)
   \<and> spectral_data (example_world\<lparr>on_close := False\<rparr>) = Some Map.empty
   \<and> fst (save_btn_click (example_world\<lparr>on_close := False\<rparr>)) = None
   \<and> controls (snd (save_btn_click (example_world\<lparr>on_close := False\<rparr>)))
       = [OutputControl, SpectralControl, FileChooserControl 0]
   \<and> file_chooser_control (snd (save_btn_click (example_world\<lparr>on_close := False\<rparr>))) = Some 0"
proof -
  have "spectral_data (example_world\<lparr>on_close := False\<rparr>) = Some Map.empty
   \<and> fst (save_btn_click (example_world\<lparr>on_close := False\<rparr>)) = None
   \<and> controls (snd (save_btn_click (example_world\<lparr>on_close := False\<rparr>)))
       = [OutputControl, SpectralControl, FileChooserControl 0]
   \<and> file_chooser_control (snd (save_btn_click (example_world\<lparr>on_close := False\<rparr>))) = Some 0"
    by (simp add: save_btn_click_def add_def Let_def example_world_def)
  then show ?thesis using example_init by simp
qed






end
